theory Spec2Isabelle
  imports Main
begin

section \<open>Cues, exceptions and observable effects\<close>

text \<open>
  The Python exceptions that the modelled code can meet. A function that may raise
  returns a pair: the exception that escaped (if any) and the layout as the raise left it,
  since mutations made before a raise persist.
\<close>

datatype py_error = IndexError | KeyError | AttributeError | TypeError

text \<open>
  \<^verbatim>\<open>lisp.cues.cue.CueAction\<close>: the source names only \<^verbatim>\<open>CueAction.Default\<close>;
  every other member of the enumeration is kept by its name.
\<close>

datatype CueAction = Default | Named string

text \<open>
  Modelled from the spec: the Cue entity (\<^verbatim>\<open>lisp.cues.cue.Cue\<close> is not part of the
  sources at hand). Section 6 of the specification gives its interface: \<^verbatim>\<open>.index\<close>
  (an integer kept in sync by the collection), \<^verbatim>\<open>.execute(action)\<close> and the
  completion notification \<^verbatim>\<open>.next\<close>. \<open>ident\<close> is the identity of the Python object
  (what \<^verbatim>\<open>is\<close> compares) and \<open>mro\<close> lists the names of its class and of all its
  superclasses (what \<^verbatim>\<open>isinstance\<close> consults).
\<close>

record cue =
  ident :: nat
  index :: int
  mro :: "string list"

definition isinstance :: "cue \<Rightarrow> string \<Rightarrow> bool" where
  "isinstance c cue_type = (cue_type \<in> set (mro c))"

text \<open>
  What an outside observer sees, in the order it happens: a cue's \<^verbatim>\<open>execute\<close> being
  called with an action, and the layout's \<^verbatim>\<open>cue_executed\<close> signal being emitted.
\<close>

datatype event = Execute cue CueAction | CueExecuted cue

section \<open>The list layout\<close>

text \<open>
  The fields of \<^verbatim>\<open>ListLayout\<close> that the sequencing code reads and writes:
  \<open>list_model\<close> is the \<^verbatim>\<open>CueListModel\<close> (the ordered cues), \<open>view_items\<close> holds the
  \<^verbatim>\<open>isSelected\<close> flag of each top-level item of the list view, row by row,
  \<open>standby\<close> is the list view's standby index (\<open>None\<close> is the sentinel "none"),
  \<open>auto_continue\<close> is \<^verbatim>\<open>_auto_continue\<close>, and \<open>trace\<close> records the events.
\<close>

record layout =
  list_model :: "cue list"
  view_items :: "bool list"
  standby :: "int option"
  auto_continue :: bool
  trace :: "event list"

text \<open>
  Modelled from the spec: \<^verbatim>\<open>CueListModel.item\<close> (the class is not part of the sources
  at hand). Section 4.1: \<^verbatim>\<open>item(index)\<close> fails with \<^verbatim>\<open>IndexError\<close> if the index is
  out of \<open>[0, N)\<close>.
\<close>

definition item :: "layout \<Rightarrow> int \<Rightarrow> py_error + cue" where
  "item s i =
     (if 0 \<le> i \<and> i < int (length (list_model s)) then Inr (list_model s ! nat i)
      else Inl IndexError)"

text \<open>\<^verbatim>\<open>cue_at(index)\<close> returns \<^verbatim>\<open>self._list_model.item(index)\<close>.\<close>

definition cue_at :: "layout \<Rightarrow> int \<Rightarrow> py_error + cue" where
  "cue_at s i = item s i"

subsection \<open>The list view's rows\<close>

definition topLevelItemCount :: "layout \<Rightarrow> nat" where
  "topLevelItemCount s = length (view_items s)"

definition isSelected :: "layout \<Rightarrow> nat \<Rightarrow> bool" where
  "isSelected s i = (view_items s ! i)"

definition setSelected :: "layout \<Rightarrow> nat \<Rightarrow> bool \<Rightarrow> layout" where
  "setSelected s i b = s\<lparr>view_items := (view_items s)[i := b]\<rparr>"

text \<open>
  \<^verbatim>\<open>invert_selection\<close>: the loop \<^verbatim>\<open>for index in range(topLevelItemCount())\<close> takes
  each row's item and sets its selected flag to the negation of the current one. The
  range is computed once, before the first iteration.
\<close>

definition invert_item :: "nat \<Rightarrow> layout \<Rightarrow> layout" where
  "invert_item i s = setSelected s i (\<not> isSelected s i)"

definition invert_selection :: "layout \<Rightarrow> layout" where
  "invert_selection s = fold invert_item [0..<topLevelItemCount s] s"

text \<open>
  \<^verbatim>\<open>select_all(cue_type)\<close> and \<^verbatim>\<open>deselect_all(cue_type)\<close>: for each row index in
  \<^verbatim>\<open>range(topLevelItemCount())\<close>, fetch the model's item at that index and, if it is an
  instance of \<open>cue_type\<close>, set the row's selected flag. The model lookup can raise, which
  ends the loop with the rows changed so far.
\<close>

fun set_where_instance :: "bool \<Rightarrow> string \<Rightarrow> nat list \<Rightarrow> layout \<Rightarrow> py_error option \<times> layout" where
  "set_where_instance b cue_type [] s = (None, s)"
| "set_where_instance b cue_type (i # is) s =
     (case item s (int i) of
        Inl e \<Rightarrow> (Some e, s)
      | Inr c \<Rightarrow>
          set_where_instance b cue_type is
            (if isinstance c cue_type then setSelected s i b else s))"

definition select_all :: "layout \<Rightarrow> string \<Rightarrow> py_error option \<times> layout" where
  "select_all s cue_type = set_where_instance True cue_type [0..<topLevelItemCount s] s"

definition deselect_all :: "layout \<Rightarrow> string \<Rightarrow> py_error option \<times> layout" where
  "deselect_all s cue_type = set_where_instance False cue_type [0..<topLevelItemCount s] s"

text \<open>
  Modelled from the spec: \<^verbatim>\<open>listView.selectedItems()\<close> (the list view is not part of the
  sources at hand). Section 3: the selection is order-preserving relative to collection
  order, so the selected rows come in ascending row order. A row stands for its item, and
  \<^verbatim>\<open>indexOfTopLevelItem(item)\<close> is the row's number.
\<close>

definition selectedItems :: "layout \<Rightarrow> nat list" where
  "selectedItems s = filter (isSelected s) [0..<topLevelItemCount s]"

text \<open>
  \<^verbatim>\<open>selected_cues(cue_type)\<close>: a generator that, for each selected item of the view, yields
  the model's item at that row. The parameter \<open>cue_type\<close> does not occur in the body.
  The result below is what draining the generator gives: the cues yielded before any
  exception, and the exception a model lookup raised, if one did.
\<close>

fun yield_items :: "layout \<Rightarrow> nat list \<Rightarrow> py_error option \<times> cue list" where
  "yield_items s [] = (None, [])"
| "yield_items s (i # is) =
     (case item s (int i) of
        Inl e \<Rightarrow> (Some e, [])
      | Inr c \<Rightarrow> (case yield_items s is of (r, cs) \<Rightarrow> (r, c # cs)))"

definition selected_cues :: "layout \<Rightarrow> string \<Rightarrow> py_error option \<times> cue list" where
  "selected_cues s cue_type = yield_items s (selectedItems s)"

text \<open>
  The sequence that the specification describes for \<^verbatim>\<open>selected_cues(subtype)\<close>: the
  current selection in collection order, filtered by subtype. It is written from the
  specification's words, to be compared with \<open>selected_cues\<close> above.
\<close>

definition selected_cues_spec :: "layout \<Rightarrow> string \<Rightarrow> cue list" where
  "selected_cues_spec s subtype =
     map (\<lambda>i. list_model s ! i)
       (filter (\<lambda>i. isSelected s i \<and> isinstance (list_model s ! i) subtype)
          [0..<length (list_model s)])"

subsection \<open>The standby cursor\<close>

text \<open>\<^verbatim>\<open>standby_index()\<close> returns the list view's \<^verbatim>\<open>standbyIndex()\<close>.\<close>

definition standby_index :: "layout \<Rightarrow> int option" where
  "standby_index s = standby s"

text \<open>
  Modelled from the spec: \<^verbatim>\<open>listView.setStandbyIndex\<close> (the list view is not part of the
  sources at hand). Section 4.2: the cursor is an integer position \<open>0..N\<close>, or the sentinel
  when \<open>N = 0\<close>; a requested position is clamped to \<open>[0, N]\<close>, never an error.
\<close>

definition setStandbyIndex :: "nat \<Rightarrow> int \<Rightarrow> int option" where
  "setStandbyIndex N i = (if N = 0 then None else Some (max 0 (min (int N) i)))"

text \<open>\<^verbatim>\<open>set_standby_index(index)\<close> hands the index to the list view.\<close>

definition set_standby_index :: "layout \<Rightarrow> int \<Rightarrow> layout" where
  "set_standby_index s i = s\<lparr>standby := setStandbyIndex (length (list_model s)) i\<rparr>"

text \<open>
  Modelled from the spec: \<^verbatim>\<open>standby_cue()\<close> (inherited from a base class that is not
  part of the sources at hand). Section 4.3, step 1: the standby cue is read via the
  cursor, and there is none if the cursor is the sentinel or the collection is empty;
  section 4.2: a cursor at \<open>N\<close> means that nothing is on standby.
\<close>

definition standby_cue :: "layout \<Rightarrow> cue option" where
  "standby_cue s =
     (case standby_index s of
        None \<Rightarrow> None
      | Some p \<Rightarrow> (case cue_at s p of Inl e \<Rightarrow> None | Inr c \<Rightarrow> Some c))"

subsection \<open>Go\<close>

text \<open>A cue's \<^verbatim>\<open>execute(action)\<close> and the emission of \<^verbatim>\<open>cue_executed\<close>, as events.\<close>

definition execute :: "layout \<Rightarrow> cue \<Rightarrow> CueAction \<Rightarrow> layout" where
  "execute s c action = s\<lparr>trace := trace s @ [Execute c action]\<rparr>"

definition cue_executed_emit :: "layout \<Rightarrow> cue \<Rightarrow> layout" where
  "cue_executed_emit s c = s\<lparr>trace := trace s @ [CueExecuted c]\<rparr>"

text \<open>
  \<^verbatim>\<open>go(action, advance)\<close>: if there is a standby cue, execute it with the action, emit
  \<^verbatim>\<open>cue_executed\<close> with it and, if \<^verbatim>\<open>_auto_continue\<close> holds, set the standby index to
  \<^verbatim>\<open>standby_index() + advance\<close>. Adding an integer to the sentinel is a \<^verbatim>\<open>TypeError\<close>.
\<close>

definition go :: "layout \<Rightarrow> CueAction \<Rightarrow> int \<Rightarrow> py_error option \<times> layout" where
  "go s action advance =
     (case standby_cue s of
        None \<Rightarrow> (None, s)
      | Some c \<Rightarrow>
          (let s1 = execute s c action;
               s2 = cue_executed_emit s1 c
           in if auto_continue s2 then
                (case standby_index s2 of
                   None \<Rightarrow> (Some TypeError, s2)
                 | Some p \<Rightarrow> (None, set_standby_index s2 (p + advance)))
              else (None, s2)))"

subsection \<open>The chain reaction\<close>

text \<open>
  Modelled from the spec: reading the attribute \<^verbatim>\<open>.cue\<close> of a Cue. Section 6 lists the
  interface of the Cue entity (\<^verbatim>\<open>.index\<close>, \<^verbatim>\<open>.execute(action)\<close>, \<^verbatim>\<open>.next\<close>); an
  attribute that an object does not have raises \<^verbatim>\<open>AttributeError\<close>.
\<close>

definition getattr_cue :: "cue \<Rightarrow> py_error + cue" where
  "getattr_cue c = Inl AttributeError"

text \<open>\<^verbatim>\<open>next_cue is self.standby_cue()\<close>: identity of objects; no cue is \<^verbatim>\<open>None\<close>.\<close>

definition is_standby_cue :: "layout \<Rightarrow> cue \<Rightarrow> bool" where
  "is_standby_cue s c = (case standby_cue s of None \<Rightarrow> False | Some c' \<Rightarrow> ident c = ident c')"

text \<open>
  The body of the \<^verbatim>\<open>try\<close> block of \<^verbatim>\<open>__cue_next(cue)\<close>: with
  \<^verbatim>\<open>next_index = cue.index + 1\<close>, if \<^verbatim>\<open>next_index < len(self._list_model)\<close> then fetch
  the model's item at \<open>next_index\<close>, call \<^verbatim>\<open>next_cue.cue.execute()\<close> and, if
  \<^verbatim>\<open>_auto_continue\<close> holds and \<open>next_cue\<close> is the standby cue, set the standby index
  to \<^verbatim>\<open>next_index + 1\<close>.
\<close>

definition cue_next_try :: "layout \<Rightarrow> cue \<Rightarrow> py_error option \<times> layout" where
  "cue_next_try s c =
     (let next_index = index c + 1
      in if next_index < int (length (list_model s)) then
           (case item s next_index of
              Inl e \<Rightarrow> (Some e, s)
            | Inr next_cue \<Rightarrow>
                (case getattr_cue next_cue of
                   Inl e \<Rightarrow> (Some e, s)
                 | Inr target \<Rightarrow>
                     (let s1 = execute s target Default
                      in if auto_continue s1 \<and> is_standby_cue s1 next_cue
                         then (None, set_standby_index s1 (next_index + 1))
                         else (None, s1))))
         else (None, s))"

text \<open>
  \<^verbatim>\<open>__cue_next(cue)\<close>: the body above under \<^verbatim>\<open>except (IndexError, KeyError): pass\<close>.
  Any other exception leaves the handler.
\<close>

definition cue_next :: "layout \<Rightarrow> cue \<Rightarrow> py_error option \<times> layout" where
  "cue_next s c =
     (case cue_next_try s c of
        (Some IndexError, s') \<Rightarrow> (None, s')
      | (Some KeyError, s') \<Rightarrow> (None, s')
      | r \<Rightarrow> r)"

section \<open>The base layout: bulk edit\<close>

text \<open>
  What \<^verbatim>\<open>CueLayout.edit_selected_cues\<close> does to its collaborators: it opens a
  \<^verbatim>\<open>CueSettings\<close> dialog for a cue class, and each time the dialog's \<^verbatim>\<open>on_apply\<close> fires
  it hands one \<^verbatim>\<open>MultiConfigureAction\<close> (the settings and the cues) to the actions
  handler. Settings are kept opaque, by name.
\<close>

datatype ui_event =
    SettingsDialog "string option"
  | DoMultiConfigure string "cue list"

text \<open>
  Modelled from the spec: \<^verbatim>\<open>greatest_common_superclass\<close> (\<^verbatim>\<open>lisp.utils.util\<close> is not
  part of the sources at hand). Section 4.5: the most specific common supertype across
  the selection, that is, the first class of the first cue's linearisation that every
  cue has among its classes.
\<close>

definition greatest_common_superclass :: "cue list \<Rightarrow> string option" where
  "greatest_common_superclass cues =
     (case cues of
        [] \<Rightarrow> None
      | c # cs \<Rightarrow> find (\<lambda>x. \<forall>d \<in> set cues. x \<in> set (mro d)) (mro c))"

text \<open>
  \<^verbatim>\<open>edit_selected_cues()\<close>. The abstract \<^verbatim>\<open>get_selected_cues()\<close> is implemented by
  the concrete layouts, so its result \<open>cues\<close> is an argument here, as is \<open>applied\<close>: the
  settings with which the user fires \<^verbatim>\<open>on_apply\<close> while the dialog runs. A Python list is
  true exactly when it is not empty.
\<close>

definition edit_selected_cues :: "cue list \<Rightarrow> string list \<Rightarrow> ui_event list \<Rightarrow> ui_event list" where
  "edit_selected_cues cues applied log =
     (if cues \<noteq> [] then
        log @ [SettingsDialog (greatest_common_superclass cues)]
            @ map (\<lambda>settings. DoMultiConfigure settings cues) applied
      else log)"

section \<open>Structural mutations and runs of operations\<close>

text \<open>
  Modelled from the spec: the structural mutations of the collection and the list
  view's reaction to them (\<^verbatim>\<open>CueListModel\<close> and \<^verbatim>\<open>CueListView\<close> are not part of the
  sources at hand). Section 4.1: \<^verbatim>\<open>insert(cueRef, at)\<close> and \<^verbatim>\<open>remove(cueRef)\<close> reindex
  the items, so that indices are the contiguous integers \<open>0..N-1\<close>, and every structural
  mutation triggers the cursor clamp and the pruning of the selection; \<^verbatim>\<open>index_of\<close> fails
  if the cue is absent, in which case nothing is removed. Section 4.2: on a change of the
  collection the cursor is clamped against the new length, it is the sentinel when the
  collection is empty, and the initial position of a non-empty collection is 0.
\<close>

definition reindex :: "cue list \<Rightarrow> cue list" where
  "reindex cs = map (\<lambda>(i, c). c\<lparr>index := int i\<rparr>) (enumerate 0 cs)"

definition clamp_standby :: "nat \<Rightarrow> int option \<Rightarrow> int option" where
  "clamp_standby N cur =
     (case cur of None \<Rightarrow> setStandbyIndex N 0 | Some p \<Rightarrow> setStandbyIndex N p)"

definition insert_cue :: "layout \<Rightarrow> cue \<Rightarrow> nat \<Rightarrow> layout" where
  "insert_cue s c at =
     (let cs = reindex (take at (list_model s) @ c # drop at (list_model s))
      in s\<lparr>list_model := cs,
           view_items := take at (view_items s) @ False # drop at (view_items s),
           standby := clamp_standby (length cs) (standby s)\<rparr>)"

definition index_of :: "layout \<Rightarrow> cue \<Rightarrow> nat option" where
  "index_of s c =
     (case filter (\<lambda>i. ident (list_model s ! i) = ident c) [0..<length (list_model s)] of
        [] \<Rightarrow> None
      | i # _ \<Rightarrow> Some i)"

definition remove_cue :: "layout \<Rightarrow> cue \<Rightarrow> layout" where
  "remove_cue s c =
     (case index_of s c of
        None \<Rightarrow> s
      | Some i \<Rightarrow>
          (let cs = reindex (take i (list_model s) @ drop (Suc i) (list_model s))
           in s\<lparr>list_model := cs,
                view_items := take i (view_items s) @ drop (Suc i) (view_items s),
                standby := clamp_standby (length cs) (standby s)\<rparr>))"

text \<open>
  The operations that touch the collection or the cursor: the two structural mutations,
  navigation (\<^verbatim>\<open>set_standby_index\<close>), \<^verbatim>\<open>go\<close> and the chain reaction
  (\<^verbatim>\<open>__cue_next\<close>). An exception that leaves \<^verbatim>\<open>go\<close> or the handler is reported by the
  caller and the layout lives on in the state that the raise left.
\<close>

datatype operation =
    Insert cue nat
  | Remove cue
  | SetStandbyIndex int
  | Go CueAction int
  | CueNext cue

fun apply_operation :: "layout \<Rightarrow> operation \<Rightarrow> layout" where
  "apply_operation s (Insert c at) = insert_cue s c at"
| "apply_operation s (Remove c) = remove_cue s c"
| "apply_operation s (SetStandbyIndex i) = set_standby_index s i"
| "apply_operation s (Go action advance) = snd (go s action advance)"
| "apply_operation s (CueNext c) = snd (cue_next s c)"

text \<open>
  The cursor's range: the sentinel exactly when the collection is empty, and otherwise a
  position between 0 and the collection's length (one past the end included).
\<close>

definition cursor_ok :: "nat \<Rightarrow> int option \<Rightarrow> bool" where
  "cursor_ok N cur =
     (case cur of None \<Rightarrow> N = 0 | Some p \<Rightarrow> N \<noteq> 0 \<and> 0 \<le> p \<and> p \<le> int N)"

definition cursor_in_range :: "layout \<Rightarrow> bool" where
  "cursor_in_range s = cursor_ok (length (list_model s)) (standby s)"

text \<open>
  Modelled from the spec: the layout at construction. Section 4.2: the initial state of
  the cursor is 0, or the sentinel if the collection is empty at construction; the
  source's constructor leaves the selection empty.
\<close>

definition initial_layout :: "cue list \<Rightarrow> bool \<Rightarrow> layout" where
  "initial_layout cs auto =
     \<lparr>list_model = reindex cs, view_items = map (\<lambda>c. False) cs,
      standby = (if cs = [] then None else Some 0), auto_continue = auto, trace = []\<rparr>"

section \<open>A collection of three cues\<close>

text \<open>
  Three cues \<open>A\<close>, \<open>B\<close>, \<open>C\<close> at indices 0, 1, 2, of two different subtypes, and the
  layout that holds them with a given cursor, policy and selection.
\<close>

definition cue_A :: cue where
  "cue_A = \<lparr>ident = 1, index = 0, mro = [''MediaCue'', ''Cue'']\<rparr>"

definition cue_B :: cue where
  "cue_B = \<lparr>ident = 2, index = 1, mro = [''LightCue'', ''Cue'']\<rparr>"

definition cue_C :: cue where
  "cue_C = \<lparr>ident = 3, index = 2, mro = [''MediaCue'', ''Cue'']\<rparr>"

definition layout_ABC :: "int option \<Rightarrow> bool \<Rightarrow> bool list \<Rightarrow> layout" where
  "layout_ABC cursor auto sel =
     \<lparr>list_model = [cue_A, cue_B, cue_C], view_items = sel, standby = cursor,
      auto_continue = auto, trace = []\<rparr>"

section \<open>Selection: inversion\<close>

lemma invert_item_view:
  "view_items (invert_item i s) = (view_items s)[i := \<not> view_items s ! i]"
  by (simp add: invert_item_def setSelected_def isSelected_def)

lemma invert_item_rest:
  "invert_item i s = s\<lparr>view_items := (view_items s)[i := \<not> view_items s ! i]\<rparr>"
  by (simp add: invert_item_def setSelected_def isSelected_def)

lemma invert_prefix:
  "n \<le> length (view_items s) \<Longrightarrow>
   fold invert_item [0..<n] s =
     s\<lparr>view_items := map Not (take n (view_items s)) @ drop n (view_items s)\<rparr>"
proof (induction n)
  case 0
  show ?case by simp
next
  case (Suc n)
  then have n: "n < length (view_items s)" by simp
  have upd: "(map Not (take n (view_items s)) @ drop n (view_items s))[n := \<not> view_items s ! n]
          = map Not (take (Suc n) (view_items s)) @ drop (Suc n) (view_items s)"
    using n by (simp add: list_update_append take_Suc_conv_app_nth
        upd_conv_take_nth_drop min_absorb2 Cons_nth_drop_Suc [symmetric] nth_append)
  have "fold invert_item [0..<Suc n] s = invert_item n (fold invert_item [0..<n] s)"
    by simp
  also have "\<dots> = invert_item n
      (s\<lparr>view_items := map Not (take n (view_items s)) @ drop n (view_items s)\<rparr>)"
    using Suc by simp
  also have "\<dots> = s\<lparr>view_items := map Not (take (Suc n) (view_items s)) @ drop (Suc n) (view_items s)\<rparr>"
    using n upd by (simp add: invert_item_rest nth_append)
  finally show ?case .
qed

lemma invert_selection_map:
  "invert_selection s = s\<lparr>view_items := map Not (view_items s)\<rparr>"
  by (simp add: invert_selection_def topLevelItemCount_def invert_prefix)

text \<open>
  C8: for every selection state, \<^verbatim>\<open>invert_selection()\<close> flips the selected flag of every
  item of the collection, whatever the cues' subtypes are, and changes nothing else.
\<close>

theorem invert_selection_flips_every_item:
  "view_items (invert_selection s) = map Not (view_items s)
   \<and> list_model (invert_selection s) = list_model s
   \<and> standby (invert_selection s) = standby s
   \<and> trace (invert_selection s) = trace s"
  by (simp add: invert_selection_map)

text \<open>
  C10: \<^verbatim>\<open>invert_selection()\<close> is an involution: called twice in succession, it gives
  back the layout it started from.
\<close>

theorem invert_selection_involution:
  "invert_selection (invert_selection s) = s"
  by (simp add: invert_selection_map comp_def)

section \<open>Selection: the selected cues\<close>

lemma yield_items_in_range:
  "\<forall>i \<in> set is. i < length (list_model s) \<Longrightarrow>
   yield_items s is = (None, map (\<lambda>i. list_model s ! i) is)"
  by (induction "is") (simp_all add: item_def)

text \<open>
  With one view row per cue, \<^verbatim>\<open>selected_cues\<close> yields the cues of the selected rows in
  collection order, whatever \<open>cue_type\<close> is.
\<close>

lemma selected_cues_unfiltered:
  "length (view_items s) = length (list_model s) \<Longrightarrow>
   selected_cues s cue_type =
     (None, map (\<lambda>i. list_model s ! i) (filter (isSelected s) [0..<length (list_model s)]))"
  by (simp add: selected_cues_def selectedItems_def topLevelItemCount_def yield_items_in_range)

text \<open>On \<open>[A, B, C]\<close> with only \<open>A\<close> selected, inversion leaves exactly \<open>B\<close> and \<open>C\<close> selected.\<close>

lemma invert_selection_example:
  "selected_cues (invert_selection (layout_ABC cursor auto [True, False, False])) cue_type
     = (None, [cue_B, cue_C])"
  by (simp add: invert_selection_map selected_cues_unfiltered layout_ABC_def isSelected_def
      upt_rec [of 0] upt_rec [of 1] upt_rec [of 2] upt_rec [of 3] eval_nat_numeral)

text \<open>The sibling \<^verbatim>\<open>select_all(cue_type)\<close> does filter by type: only \<open>B\<close> is a light cue.\<close>

lemma select_all_example:
  "select_all (layout_ABC (Some 0) True [False, False, False]) ''LightCue''
     = (None, layout_ABC (Some 0) True [False, True, False])"
  by code_simp

text \<open>
  C7: \<^verbatim>\<open>selected_cues(S)\<close> is said to yield exactly the selected cues whose type matches
  \<open>S\<close>. On \<open>[A, B, C]\<close> with \<open>A\<close> and \<open>B\<close> selected and \<open>S\<close> the light cues, the code
  yields \<open>A\<close> and \<open>B\<close>, although \<open>A\<close> is not a light cue; the specified sequence is
  \<open>B\<close> alone.
\<close>

theorem selected_cues_ignores_cue_type:
  "selected_cues (layout_ABC (Some 0) True [True, True, False]) ''LightCue''
     = (None, [cue_A, cue_B])
   \<and> selected_cues_spec (layout_ABC (Some 0) True [True, True, False]) ''LightCue'' = [cue_B]
   \<and> \<not> isinstance cue_A ''LightCue''"
  by code_simp

section \<open>Bulk edit\<close>

text \<open>
  C9: \<^verbatim>\<open>edit_selected_cues()\<close> with an empty selection is a no-op: no settings dialog is
  opened and no edit action is built or submitted, whatever the user would have applied.
\<close>

theorem edit_selected_cues_empty_selection:
  "edit_selected_cues [] applied log = log"
  by (simp add: edit_selected_cues_def)

section \<open>Go\<close>

lemma standby_cue_None:
  "list_model s = [] \<or> standby s = None \<Longrightarrow> standby_cue s = None"
  by (auto simp: standby_cue_def standby_index_def cue_at_def item_def split: option.splits)

lemma standby_cue_Some:
  "standby s = Some p \<Longrightarrow> 0 \<le> p \<Longrightarrow> p < int (length (list_model s)) \<Longrightarrow>
   standby_cue s = Some (list_model s ! nat p)"
  by (simp add: standby_cue_def standby_index_def cue_at_def item_def)

text \<open>
  C2: in every state in which the collection is empty or the standby cursor is the
  sentinel, \<^verbatim>\<open>go()\<close> is a no-op: it returns normally and the layout is the same, so no cue
  is executed, no notification is emitted and the cursor is unchanged.
\<close>

theorem go_noop_without_standby:
  "list_model s = [] \<or> standby s = None \<Longrightarrow> go s action advance = (None, s)"
  by (simp add: go_def standby_cue_None)

theorem go_noop_without_standby_witness:
  "go \<lparr>list_model = [], view_items = [], standby = None, auto_continue = True, trace = []\<rparr>
      Default 1
   = (None, \<lparr>list_model = [], view_items = [], standby = None, auto_continue = True, trace = []\<rparr>)"
  using go_noop_without_standby
    [of "\<lparr>list_model = [], view_items = [], standby = None, auto_continue = True, trace = []\<rparr>" Default 1]
  by simp

text \<open>
  C1: when the cursor is on a cue of the collection, \<^verbatim>\<open>go(action, advance)\<close> returns
  normally, having executed that cue with the action and then emitted the cue-executed
  notification with it; the cursor is set to its position plus \<open>advance\<close> (clamped as
  every cursor request is) if auto-continue is enabled, and is left where it was if not.
\<close>

theorem go_executes_standby_cue:
  assumes "standby s = Some p" and "0 \<le> p" and "p < int (length (list_model s))"
  shows "go s action advance =
    (None, s\<lparr>standby := (if auto_continue s
                          then setStandbyIndex (length (list_model s)) (p + advance)
                          else Some p),
             trace := trace s @ [Execute (list_model s ! nat p) action,
                                 CueExecuted (list_model s ! nat p)]\<rparr>)"
  using assms
  by (simp add: go_def standby_cue_Some Let_def execute_def cue_executed_emit_def
      standby_index_def set_standby_index_def)

theorem go_executes_standby_cue_witness:
  "go (layout_ABC (Some 0) True [False, False, False]) Default 1 =
     (None, (layout_ABC (Some 1) True [False, False, False])
        \<lparr>trace := [Execute cue_A Default, CueExecuted cue_A]\<rparr>)
   \<and> go (layout_ABC (Some 0) False [False, False, False]) Default 1 =
     (None, (layout_ABC (Some 0) False [False, False, False])
        \<lparr>trace := [Execute cue_A Default, CueExecuted cue_A]\<rparr>)"
  using go_executes_standby_cue
      [of "layout_ABC (Some 0) True [False, False, False]" 0 Default 1]
    go_executes_standby_cue
      [of "layout_ABC (Some 0) False [False, False, False]" 0 Default 1]
  by (simp add: layout_ABC_def setStandbyIndex_def)

section \<open>The chain reaction\<close>




lemma not_standby_when_other:
  "standby s = Some p \<Longrightarrow> 0 \<le> p \<Longrightarrow> p < int (length (list_model s)) \<Longrightarrow>
   ident c \<noteq> ident (list_model s ! nat p) \<Longrightarrow> \<not> is_standby_cue s c"
  by (simp add: is_standby_cue_def standby_cue_Some)

text \<open>
  The handler moves the cursor in one situation only: auto-continue is enabled, there is
  a cue after the completed one, and that cue is the standby cue.
\<close>

lemma cue_next_standby_cases:
  "standby (snd (cue_next s c)) = standby s \<or>
   (auto_continue s \<and> 0 \<le> index c + 1 \<and> index c + 1 < int (length (list_model s))
    \<and> is_standby_cue s (list_model s ! nat (index c + 1))
    \<and> standby (snd (cue_next s c)) = setStandbyIndex (length (list_model s)) (index c + 2))"
  by (simp add: cue_next_def cue_next_try_def item_def getattr_cue_def Let_def)

text \<open>
  C5, as stated: on \<open>[A, B, C]\<close> with the cursor at 1 and auto-continue enabled, the
  completion of \<open>B\<close> is said to move the cursor to 3. It does not.
\<close>

theorem cue_next_cursor_not_three_counterexample:
  "\<not> (standby (snd (cue_next (layout_ABC (Some 1) True [False, False, False]) cue_B))
        = Some 3)"
  by (simp add: cue_next_def cue_next_try_def item_def getattr_cue_def Let_def
      layout_ABC_def cue_B_def)

text \<open>
  C5, amended: on a collection \<open>[A, B, C]\<close> with the cursor at 1 (standby \<open>B\<close>) and
  auto-continue enabled, when \<open>B\<close> (index 1) emits its completion notification the
  cue at index 2, \<open>C\<close>, is not the standby cue, and the cursor stays at 1.
\<close>

theorem cue_next_keeps_cursor_on_other_standby:
  assumes "list_model s = [A, B, C]" and "standby s = Some 1" and "auto_continue s"
    and "index B = 1" and "ident C \<noteq> ident B"
  shows "\<not> is_standby_cue s C \<and> standby (snd (cue_next s B)) = Some 1"
proof -
  have ns: "\<not> is_standby_cue s C"
    using assms not_standby_when_other [of s 1 C] by simp
  have "list_model s ! nat (index B + 1) = C"
    using assms by simp
  with ns cue_next_standby_cases [of s B] assms show ?thesis
    by auto
qed

theorem cue_next_keeps_cursor_on_other_standby_witness:
  "\<not> is_standby_cue (layout_ABC (Some 1) True [False, False, False]) cue_C
   \<and> standby (snd (cue_next (layout_ABC (Some 1) True [False, False, False]) cue_B)) = Some 1"
  using cue_next_keeps_cursor_on_other_standby
    [of "layout_ABC (Some 1) True [False, False, False]" cue_A cue_B cue_C]
  by (simp add: layout_ABC_def cue_B_def cue_C_def)

text \<open>
  C3: when the position after the completed cue is within bounds, the handler is said to
  execute the cue there. On \<open>[A, B, C]\<close> with the cursor at 1, the completion of \<open>A\<close>
  (index 0) makes the handler read \<^verbatim>\<open>.cue\<close> of the cue \<open>B\<close>: an \<^verbatim>\<open>AttributeError\<close>
  leaves the handler, \<open>B\<close> is not executed and the cursor stays at 1.
\<close>

theorem cue_next_attribute_error:
  "cue_next (layout_ABC (Some 1) True [False, False, False]) cue_A
     = (Some AttributeError, layout_ABC (Some 1) True [False, False, False])"
  by (simp add: cue_next_def cue_next_try_def item_def getattr_cue_def Let_def
      layout_ABC_def cue_A_def)

section \<open>The cursor stays in range\<close>

lemma setStandbyIndex_ok: "cursor_ok N (setStandbyIndex N i)"
  by (simp add: cursor_ok_def setStandbyIndex_def)

lemma clamp_standby_ok: "cursor_ok N (clamp_standby N cur)"
  by (simp add: clamp_standby_def setStandbyIndex_ok split: option.splits)

lemma length_reindex: "length (reindex cs) = length cs"
  by (simp add: reindex_def)

lemma set_standby_index_in_range: "cursor_in_range (set_standby_index s i)"
  by (simp add: cursor_in_range_def set_standby_index_def setStandbyIndex_ok)

lemma insert_cue_in_range: "cursor_in_range (insert_cue s c at)"
  by (simp add: cursor_in_range_def insert_cue_def Let_def clamp_standby_ok)

lemma remove_cue_in_range: "cursor_in_range s \<Longrightarrow> cursor_in_range (remove_cue s c)"
  by (simp add: cursor_in_range_def remove_cue_def Let_def clamp_standby_ok split: option.splits)

lemma go_in_range: "cursor_in_range s \<Longrightarrow> cursor_in_range (snd (go s action advance))"
proof (cases "standby_cue s")
  case None
  assume "cursor_in_range s"
  with None show ?thesis by (simp add: go_def)
next
  case (Some c)
  assume ok: "cursor_in_range s"
  from Some obtain p where p: "standby s = Some p"
    using standby_cue_None [of s] by (cases "standby s") auto
  with Some ok show ?thesis
    by (simp add: go_def Let_def execute_def cue_executed_emit_def standby_index_def
        set_standby_index_def cursor_in_range_def setStandbyIndex_ok)
qed

lemma cue_next_in_range: "cursor_in_range s \<Longrightarrow> cursor_in_range (snd (cue_next s c))"
  using cue_next_standby_cases [of s c]
  by (auto simp: cursor_in_range_def setStandbyIndex_ok cue_next_def cue_next_try_def
      item_def getattr_cue_def Let_def)

lemma apply_operation_in_range:
  "cursor_in_range s \<Longrightarrow> cursor_in_range (apply_operation s op)"
  by (cases op)
    (simp_all add: insert_cue_in_range remove_cue_in_range set_standby_index_in_range
      go_in_range cue_next_in_range)

text \<open>
  C6: for every run of insertions, removals, navigation requests, \<^verbatim>\<open>go\<close> calls and chain
  reactions, from a layout whose cursor is in range, the cursor is in range after the
  run (so after each of its operations): it is the sentinel exactly when the collection is
  empty, and otherwise lies between 0 and the collection's length.
\<close>

theorem standby_cursor_always_in_range:
  "cursor_in_range s \<Longrightarrow> cursor_in_range (foldl apply_operation s ops)"
  by (induction ops arbitrary: s) (simp_all add: apply_operation_in_range)

theorem standby_cursor_always_in_range_witness:
  "cursor_in_range (initial_layout [] True)
   \<and> cursor_in_range (foldl apply_operation (initial_layout [] True)
        [Insert cue_A 0, Insert cue_B 1, Insert cue_C 2, Go Default 7, Remove cue_C, Remove cue_A])
   \<and> standby (foldl apply_operation (initial_layout [] True)
        [Insert cue_A 0, Insert cue_B 1, Insert cue_C 2, Go Default 7, Remove cue_C, Remove cue_A])
      = Some 1"
proof -
  have init: "cursor_in_range (initial_layout [] True)"
    by (simp add: cursor_in_range_def cursor_ok_def initial_layout_def reindex_def)
  have "standby (foldl apply_operation (initial_layout [] True)
        [Insert cue_A 0, Insert cue_B 1, Insert cue_C 2, Go Default 7, Remove cue_C, Remove cue_A])
      = Some 1"
    by code_simp
  with init standby_cursor_always_in_range [OF init] show ?thesis
    by blast
qed

end
